theory Spec2Isabelle
  imports Complex_Main "HOL-Library.Sublist" "HOL-Library.Log_Nat"
begin

section \<open>JavaScript numbers\<close>

text \<open>
  A JavaScript number is an IEEE-754 binary64 value. A finite one is kept as the exact
  rational it denotes (the sign of zero is not kept: no operation below depends on it).
\<close>

datatype jsnum = NaN | PosInf | NegInf | Fin rat

text \<open>Round to the nearest integer, ties to the even one.\<close>

definition round_half_even :: "rat \<Rightarrow> int" where
  "round_half_even x =
     (let f = \<lfloor>x\<rfloor>; d = x - of_int f
      in if d < 1 / 2 then f else if 1 / 2 < d then f + 1 else if even f then f else f + 1)"

text \<open>For \<open>0 < x\<close>: the exponent \<open>e\<close> with \<open>2 ^ e \<le> x < 2 ^ (e + 1)\<close>.\<close>

definition floor_log2 :: "rat \<Rightarrow> int" where
  "floor_log2 x =
     (let (p, q) = quotient_of x;
          d = int (floorlog 2 (nat p)) - int (floorlog 2 (nat q))
      in if 2 powi d \<le> x then d else d - 1)"

text \<open>
  The binary64 value nearest to a rational (round to nearest, ties to even): 53
  significant bits, exponent not below \<open>-1022\<close> (subnormals below), infinite from
  \<open>2 ^ 1024\<close> on.
\<close>

definition double_of_rat :: "rat \<Rightarrow> jsnum" where
  "double_of_rat x =
     (if x = 0 then Fin 0
      else
        let a = \<bar>x\<bar>;
            e = max (floor_log2 a) (- 1022);
            ulp = 2 powi (e - 52);
            r = of_int (round_half_even (a / ulp)) * ulp
        in if 2 powi 1024 \<le> r then (if 0 < x then PosInf else NegInf)
           else Fin (if 0 < x then r else - r))"

text \<open>The operator \<open>*\<close> on numbers.\<close>

fun js_mul :: "jsnum \<Rightarrow> jsnum \<Rightarrow> jsnum" where
  "js_mul NaN _ = NaN"
| "js_mul _ NaN = NaN"
| "js_mul (Fin a) (Fin b) = double_of_rat (a * b)"
| "js_mul (Fin a) PosInf = (if a = 0 then NaN else if 0 < a then PosInf else NegInf)"
| "js_mul (Fin a) NegInf = (if a = 0 then NaN else if 0 < a then NegInf else PosInf)"
| "js_mul PosInf (Fin b) = (if b = 0 then NaN else if 0 < b then PosInf else NegInf)"
| "js_mul NegInf (Fin b) = (if b = 0 then NaN else if 0 < b then NegInf else PosInf)"
| "js_mul PosInf PosInf = PosInf"
| "js_mul PosInf NegInf = NegInf"
| "js_mul NegInf PosInf = NegInf"
| "js_mul NegInf NegInf = PosInf"

text \<open>The comparison \<open>x <= 0\<close> on numbers (false on \<open>NaN\<close>).\<close>

fun js_le_zero :: "jsnum \<Rightarrow> bool" where
  "js_le_zero NaN = False"
| "js_le_zero PosInf = False"
| "js_le_zero NegInf = True"
| "js_le_zero (Fin a) = (a \<le> 0)"

section \<open>Validation (the zod schemas of \<open>app/lib/action.ts\<close>)\<close>

text \<open>
  \<open>formData.get(name)\<close> is the submitted string, or \<open>null\<close> when the form has no
  such field.
\<close>

type_synonym FormData = "string \<rightharpoonup> string"

datatype issue_code = invalid_type | too_small | invalid_string | invalid_enum_value | custom

datatype ZodIssue = ZodIssue (code: issue_code) (path: "string list") (msg: string)

text \<open>
  What a schema's parser returns: \<open>INVALID\<close> (aborted, no value), \<open>DIRTY\<close> (a value,
  with issues recorded) or \<open>VALID\<close>. The issues are collected beside it.
\<close>

datatype 'a ParseReturn = INVALID | DIRTY 'a | VALID 'a

datatype 'a SafeParseReturn = SafeSuccess 'a | SafeError "ZodIssue list"

datatype thrown =
    AuthError string
  | DatabaseError string
  | RedirectError string
  | ZodError "ZodIssue list"
  | OtherError

record user_row =
  user_id :: string
  user_email :: string
  user_password :: string
  user_name :: string

record invoice_row =
  invoice_id :: string
  customer_id :: string
  amount :: jsnum
  status :: string
  date :: string

text \<open>
  The state the actions act on: the two tables, the paths whose cached view has been
  signalled as stale, and the established session (the signed-in user's email).
\<close>

record world =
  users :: "user_row list"
  invoices :: "invoice_row list"
  revalidated :: "string list"
  session :: "string option"

text \<open>
  What the actions take from outside this repository: zod's email pattern and default
  messages, JavaScript's \<open>Number(...)\<close> on a string or \<open>null\<close>, \<open>bcrypt.hash\<close>, the
  current day as \<open>new Date().toISOString().split('T')[0]\<close> gives it, the error the store
  raises on a statement (if it does), the id the store generates for an inserted row, and
  \<open>signIn\<close> of \<open>@/auth\<close>, which returns or throws and may change the session.
\<close>

record env =
  emailRegex :: "string \<Rightarrow> bool"
  defaultError :: "issue_code \<Rightarrow> string"
  Number :: "string option \<Rightarrow> jsnum"
  bcrypt_hash :: "string \<Rightarrow> nat \<Rightarrow> string"
  today :: string
  db_fault :: "thrown option"
  gen_id :: string
  signIn :: "FormData \<Rightarrow> world \<Rightarrow> (thrown + unit) \<times> world"

text \<open>
  \<open>z.string()\<close> with its checks: a non-string input aborts with one \<open>invalid_type\<close>
  issue; a string runs every check, and is dirty if one of them failed.
\<close>

definition ZodString_parse ::
  "string \<Rightarrow> string \<Rightarrow> (string \<Rightarrow> ZodIssue list) \<Rightarrow> string option \<Rightarrow> ZodIssue list \<times> string ParseReturn"
where
  "ZodString_parse key type_message checks input =
     (case input of
        None \<Rightarrow> ([ZodIssue invalid_type [key] type_message], INVALID)
      | Some s \<Rightarrow> (let issues = checks s in (issues, if issues = [] then VALID s else DIRTY s)))"

definition email_check :: "env \<Rightarrow> string \<Rightarrow> string \<Rightarrow> ZodIssue list" where
  "email_check env key s =
     (if emailRegex env s then [] else [ZodIssue invalid_string [key] (defaultError env invalid_string)])"

text \<open>
  \<open>.min(n)\<close>. The text of zod's default message also names the minimum; the model keeps
  one default text per issue code, and no statement below depends on the text.
\<close>

definition min_check :: "env \<Rightarrow> string \<Rightarrow> nat \<Rightarrow> string \<Rightarrow> ZodIssue list" where
  "min_check env key n s =
     (if length s < n then [ZodIssue too_small [key] (defaultError env too_small)] else [])"

text \<open>
  \<open>z.coerce.number().gt(0, {message})\<close>: the input goes through \<open>Number(...)\<close>;
  \<open>NaN\<close> aborts with \<open>invalid_type\<close>, a number \<open><= 0\<close> is dirty with the given message.
\<close>

definition ZodNumber_gt0_parse ::
  "env \<Rightarrow> string \<Rightarrow> string \<Rightarrow> string option \<Rightarrow> ZodIssue list \<times> jsnum ParseReturn"
where
  "ZodNumber_gt0_parse env key message input =
     (let n = Number env input
      in if n = NaN then ([ZodIssue invalid_type [key] (defaultError env invalid_type)], INVALID)
         else if js_le_zero n then ([ZodIssue too_small [key] message], DIRTY n)
         else ([], VALID n))"

text \<open>
  \<open>z.enum(values, {invalid_type_error})\<close>: a non-string aborts with the given message, a
  string outside the values aborts with the default \<open>invalid_enum_value\<close> message.
\<close>

definition ZodEnum_parse ::
  "env \<Rightarrow> string \<Rightarrow> string list \<Rightarrow> string \<Rightarrow> string option \<Rightarrow> ZodIssue list \<times> string ParseReturn"
where
  "ZodEnum_parse env key values type_message input =
     (case input of
        None \<Rightarrow> ([ZodIssue invalid_type [key] type_message], INVALID)
      | Some s \<Rightarrow>
          if s \<in> set values then ([], VALID s)
          else ([ZodIssue invalid_enum_value [key] (defaultError env invalid_enum_value)], INVALID))"

text \<open>
  An object schema parses every field, then merges: aborted if a field aborted, else
  dirty if a field is dirty.
\<close>

fun mergeObject :: "'a ParseReturn \<Rightarrow> 'b ParseReturn \<Rightarrow> ('a \<times> 'b) ParseReturn" where
  "mergeObject INVALID _ = INVALID"
| "mergeObject (DIRTY a) INVALID = INVALID"
| "mergeObject (VALID a) INVALID = INVALID"
| "mergeObject (DIRTY a) (DIRTY b) = DIRTY (a, b)"
| "mergeObject (DIRTY a) (VALID b) = DIRTY (a, b)"
| "mergeObject (VALID a) (DIRTY b) = DIRTY (a, b)"
| "mergeObject (VALID a) (VALID b) = VALID (a, b)"

text \<open>
  \<open>RegisterSchema\<close>, on the object
  \<open>{email, name, password, confirmPassword}\<close> that \<open>register\<close> builds.
\<close>

definition RegisterSchema ::
  "env \<Rightarrow> string option \<times> string option \<times> string option \<times> string option
     \<Rightarrow> ZodIssue list \<times> (string \<times> string \<times> string \<times> string) ParseReturn"
where
  "RegisterSchema env input =
     (let (email, name, password, confirmPassword) = input;
          (i1, r1) = ZodString_parse ''email'' (defaultError env invalid_type)
                       (email_check env ''email'') email;
          (i2, r2) = ZodString_parse ''name'' (defaultError env invalid_type)
                       (min_check env ''name'' 1) name;
          (i3, r3) = ZodString_parse ''password'' (defaultError env invalid_type)
                       (min_check env ''password'' 6) password;
          (i4, r4) = ZodString_parse ''confirmPassword'' (defaultError env invalid_type)
                       (min_check env ''confirmPassword'' 6) confirmPassword
      in (i1 @ i2 @ i3 @ i4, mergeObject r1 (mergeObject r2 (mergeObject r3 r4))))"

text \<open>
  \<open>FullRegisterSchema = RegisterSchema.refine(confirmPassword === password, {message,
  path: ['confirmPassword']})\<close>: the refinement runs on the value of the inner schema,
  unless that one aborted.
\<close>

definition FullRegisterSchema ::
  "env \<Rightarrow> string option \<times> string option \<times> string option \<times> string option
     \<Rightarrow> ZodIssue list \<times> (string \<times> string \<times> string \<times> string) ParseReturn"
where
  "FullRegisterSchema env input =
     (case RegisterSchema env input of
        (issues, INVALID) \<Rightarrow> (issues, INVALID)
      | (issues, DIRTY (email, name, password, confirmPassword)) \<Rightarrow>
          if confirmPassword = password
          then (issues, DIRTY (email, name, password, confirmPassword))
          else (issues @ [ZodIssue custom [''confirmPassword''] ''Password does not match''],
                DIRTY (email, name, password, confirmPassword))
      | (issues, VALID (email, name, password, confirmPassword)) \<Rightarrow>
          if confirmPassword = password
          then (issues, VALID (email, name, password, confirmPassword))
          else (issues @ [ZodIssue custom [''confirmPassword''] ''Password does not match''],
                DIRTY (email, name, password, confirmPassword)))"

text \<open>\<open>FormSchema.omit({id: true, date: true})\<close>, on \<open>{customerId, amount, status}\<close>.\<close>

definition CreateInvoice ::
  "env \<Rightarrow> string option \<times> string option \<times> string option
     \<Rightarrow> ZodIssue list \<times> (string \<times> jsnum \<times> string) ParseReturn"
where
  "CreateInvoice env input =
     (let (customerId, amount, status) = input;
          (i1, r1) = ZodString_parse ''customerId'' ''Please select a customer.'' (\<lambda>s. []) customerId;
          (i2, r2) = ZodNumber_gt0_parse env ''amount'' ''Please enter an amount greater than $0.'' amount;
          (i3, r3) = ZodEnum_parse env ''status'' [''pending'', ''paid'']
                       ''Please select an invoice status.'' status
      in (i1 @ i2 @ i3, mergeObject r1 (mergeObject r2 r3)))"

definition UpdateInvoice ::
  "env \<Rightarrow> string option \<times> string option \<times> string option
     \<Rightarrow> ZodIssue list \<times> (string \<times> jsnum \<times> string) ParseReturn"
where
  "UpdateInvoice env input =
     (let (customerId, amount, status) = input;
          (i1, r1) = ZodString_parse ''customerId'' ''Please select a customer.'' (\<lambda>s. []) customerId;
          (i2, r2) = ZodNumber_gt0_parse env ''amount'' ''Please enter an amount greater than $0.'' amount;
          (i3, r3) = ZodEnum_parse env ''status'' [''pending'', ''paid'']
                       ''Please select an invoice status.'' status
      in (i1 @ i2 @ i3, mergeObject r1 (mergeObject r2 r3)))"

text \<open>\<open>schema.safeParse(x)\<close> and \<open>schema.parse(x)\<close>, which throws the \<open>ZodError\<close>.\<close>

fun safeParse :: "ZodIssue list \<times> 'a ParseReturn \<Rightarrow> 'a SafeParseReturn" where
  "safeParse (issues, VALID v) = SafeSuccess v"
| "safeParse (issues, DIRTY v) = SafeError issues"
| "safeParse (issues, INVALID) = SafeError issues"

fun parse :: "ZodIssue list \<times> 'a ParseReturn \<Rightarrow> thrown + 'a" where
  "parse (issues, VALID v) = Inr v"
| "parse (issues, DIRTY v) = Inl (ZodError issues)"
| "parse (issues, INVALID) = Inl (ZodError issues)"

text \<open>
  \<open>error.flatten().fieldErrors\<close>: each issue with a non-empty path pushes its message on
  the list kept under the path's first element.
\<close>

fun push_fieldError ::
  "string \<Rightarrow> string \<Rightarrow> (string \<times> string list) list \<Rightarrow> (string \<times> string list) list"
where
  "push_fieldError k m [] = [(k, [m])]"
| "push_fieldError k m ((k', ms) # rest) =
     (if k' = k then (k', ms @ [m]) # rest else (k', ms) # push_fieldError k m rest)"

definition fieldErrors :: "ZodIssue list \<Rightarrow> (string \<times> string list) list" where
  "fieldErrors issues =
     foldl (\<lambda>acc i. case path i of [] \<Rightarrow> acc | k # _ \<Rightarrow> push_fieldError k (msg i) acc) [] issues"

text \<open>The value an action returns: \<open>{errors?, message}\<close>.\<close>

record State =
  errors :: "(string \<times> string list) list option"
  message :: string

section \<open>The store\<close>

text \<open>
  The relational store is outside the repository. Each \<open>sql\<close> call is one parameterized
  statement; as sections 5 and 6 of the specification assume, a statement is atomic (one
  that fails raises the store's error and changes no row) and \<open>users.email\<close> is unique,
  a violation being the error with code \<open>23505\<close>. A statement returns its row count.
\<close>

definition sql_INSERT_users ::
  "env \<Rightarrow> string \<times> string \<times> string \<Rightarrow> world \<Rightarrow> (thrown + nat) \<times> world"
where
  "sql_INSERT_users env values w =
     (let (email, password, name) = values
      in case db_fault env of
           Some err \<Rightarrow> (Inl err, w)
         | None \<Rightarrow>
             if email \<in> set (map user_email (users w)) then (Inl (DatabaseError ''23505''), w)
             else (Inr 1, w\<lparr>users := users w @
                     [\<lparr>user_id = gen_id env, user_email = email,
                       user_password = password, user_name = name\<rparr>]\<rparr>))"

definition sql_INSERT_invoices ::
  "env \<Rightarrow> string \<times> jsnum \<times> string \<times> string \<Rightarrow> world \<Rightarrow> (thrown + nat) \<times> world"
where
  "sql_INSERT_invoices env values w =
     (let (customerId, amountInCents, status', date') = values
      in case db_fault env of
           Some err \<Rightarrow> (Inl err, w)
         | None \<Rightarrow>
             (Inr 1, w\<lparr>invoices := invoices w @
                [\<lparr>invoice_id = gen_id env, customer_id = customerId, amount = amountInCents,
                  status = status', date = date'\<rparr>]\<rparr>))"

definition sql_UPDATE_invoices ::
  "env \<Rightarrow> string \<times> jsnum \<times> string \<Rightarrow> string \<Rightarrow> world \<Rightarrow> (thrown + nat) \<times> world"
where
  "sql_UPDATE_invoices env values id' w =
     (let (customerId, amountInCents, status') = values
      in case db_fault env of
           Some err \<Rightarrow> (Inl err, w)
         | None \<Rightarrow>
             (Inr (length (filter (\<lambda>r. invoice_id r = id') (invoices w))),
              w\<lparr>invoices :=
                  map (\<lambda>r. if invoice_id r = id'
                            then r\<lparr>customer_id := customerId, amount := amountInCents, status := status'\<rparr>
                            else r)
                      (invoices w)\<rparr>))"

definition sql_DELETE_invoices :: "env \<Rightarrow> string \<Rightarrow> world \<Rightarrow> (thrown + nat) \<times> world" where
  "sql_DELETE_invoices env id' w =
     (case db_fault env of
        Some err \<Rightarrow> (Inl err, w)
      | None \<Rightarrow>
          (Inr (length (filter (\<lambda>r. invoice_id r = id') (invoices w))),
           w\<lparr>invoices := filter (\<lambda>r. invoice_id r \<noteq> id') (invoices w)\<rparr>))"

section \<open>The actions of \<open>app/lib/action.ts\<close>\<close>

text \<open>
  An action returns a value (\<open>Inr\<close>) or throws (\<open>Inl\<close>), and leaves a world.
  \<open>redirect(url)\<close> throws the navigation signal \<open>RedirectError url\<close>;
  \<open>revalidatePath(p)\<close> records \<open>p\<close> as stale.
\<close>

definition revalidatePath :: "string \<Rightarrow> world \<Rightarrow> world" where
  "revalidatePath p w = w\<lparr>revalidated := revalidated w @ [p]\<rparr>"

definition isRedirectError :: "thrown \<Rightarrow> bool" where
  "isRedirectError error = (case error of RedirectError _ \<Rightarrow> True | _ \<Rightarrow> False)"

text \<open>\<open>error.code\<close>: the store's errors carry one.\<close>

definition error_code :: "thrown \<Rightarrow> string option" where
  "error_code error = (case error of DatabaseError c \<Rightarrow> Some c | _ \<Rightarrow> None)"

definition authenticate ::
  "env \<Rightarrow> string option \<Rightarrow> FormData \<Rightarrow> world \<Rightarrow> (thrown + string option) \<times> world"
where
  "authenticate env prevState formData w =
     (case signIn env formData w of
        (Inr _, w') \<Rightarrow> (Inr None, w')
      | (Inl error, w') \<Rightarrow>
          (case error of
             AuthError type \<Rightarrow>
               if type = ''CredentialsSignin'' then (Inr (Some ''Invalid credentials.''), w')
               else (Inr (Some ''Something went wrong.''), w')
           | _ \<Rightarrow> (Inl error, w')))"

definition createUser ::
  "env \<Rightarrow> string \<times> string \<times> string \<Rightarrow> world \<Rightarrow> (thrown + nat) \<times> world"
where
  "createUser env formData w = sql_INSERT_users env formData w"

text \<open>The \<open>catch\<close> block of \<open>register\<close>.\<close>

definition register_catch :: "thrown \<Rightarrow> world \<Rightarrow> (thrown + State option) \<times> world" where
  "register_catch error w =
     (if error_code error = Some ''23505''
      then (Inr (Some \<lparr>errors = None, message = ''Email already exists. Please sign in.''\<rparr>), w)
      else if isRedirectError error then (Inl (RedirectError ''/dashboard''), w)
      else (Inr (Some \<lparr>errors = None, message = ''Something went wrong, please try again.''\<rparr>), w))"

definition register ::
  "env \<Rightarrow> State option \<Rightarrow> FormData \<Rightarrow> world \<Rightarrow> (thrown + State option) \<times> world"
where
  "register env prevState formData w =
     (case safeParse (FullRegisterSchema env
             (formData ''email'', formData ''name'', formData ''password'',
              formData ''confirm-password'')) of
        SafeError issues \<Rightarrow>
          (Inr (Some \<lparr>errors = Some (fieldErrors issues),
                      message = ''Missing Fields. Failed to Create User, please try again.''\<rparr>), w)
      | SafeSuccess (email, name, password, confirmPassword) \<Rightarrow>
          let hashedPassword = bcrypt_hash env password 10
          in case createUser env (email, hashedPassword, name) w of
               (Inl error, w1) \<Rightarrow> register_catch error w1
             | (Inr rowCount, w1) \<Rightarrow>
                 if rowCount \<noteq> 1
                 then (Inr (Some \<lparr>errors = None, message = ''Database error. Failed to create user.''\<rparr>), w1)
                 else case signIn env [''email'' \<mapsto> email, ''password'' \<mapsto> password] w1 of
                        (Inl error, w2) \<Rightarrow> register_catch error w2
                      | (Inr _, w2) \<Rightarrow> (Inr None, w2))"

definition createInvoice ::
  "env \<Rightarrow> State \<Rightarrow> FormData \<Rightarrow> world \<Rightarrow> (thrown + State) \<times> world"
where
  "createInvoice env prevState formData w =
     (case safeParse (CreateInvoice env
             (formData ''customerId'', formData ''amount'', formData ''status'')) of
        SafeError issues \<Rightarrow>
          (Inr \<lparr>errors = Some (fieldErrors issues),
                message = ''Missing Fields. Failed to Create Invoice.''\<rparr>, w)
      | SafeSuccess data \<Rightarrow>
          let (customerId, amount, status) = data;
              amountInCents = js_mul amount (Fin 100);
              date = today env
          in case sql_INSERT_invoices env (customerId, amountInCents, status, date) w of
               (Inl error, w1) \<Rightarrow>
                 (Inr \<lparr>errors = None, message = ''Database Error: Failed to Create Invoice.''\<rparr>, w1)
             | (Inr _, w1) \<Rightarrow>
                 (Inl (RedirectError ''/dashboard/invoices''),
                  revalidatePath ''/dashboard/invoices'' w1))"

definition updateInvoice ::
  "env \<Rightarrow> string \<Rightarrow> FormData \<Rightarrow> world \<Rightarrow> (thrown + State) \<times> world"
where
  "updateInvoice env id' formData w =
     (case parse (UpdateInvoice env
             (formData ''customerId'', formData ''amount'', formData ''status'')) of
        Inl error \<Rightarrow> (Inl error, w)
      | Inr data \<Rightarrow>
          let (customerId, amount, status) = data;
              amountInCents = js_mul amount (Fin 100)
          in case sql_UPDATE_invoices env (customerId, amountInCents, status) id' w of
               (Inl error, w1) \<Rightarrow>
                 (Inr \<lparr>errors = None, message = ''Database Error: Failed to Update Invoice.''\<rparr>, w1)
             | (Inr _, w1) \<Rightarrow>
                 (Inl (RedirectError ''/dashboard/invoices''),
                  revalidatePath ''/dashboard/invoices'' w1))"

definition deleteInvoice :: "env \<Rightarrow> string \<Rightarrow> world \<Rightarrow> (thrown + State) \<times> world" where
  "deleteInvoice env id' w =
     (case sql_DELETE_invoices env id' w of
        (Inr _, w1) \<Rightarrow>
          (Inr \<lparr>errors = None, message = ''Deleted Invoice.''\<rparr>,
           revalidatePath ''/dashboard/invoices'' w1)
      | (Inl error, w1) \<Rightarrow>
          (Inr \<lparr>errors = None, message = ''Database Error: Failed to Delete Invoice.''\<rparr>, w1))"

section \<open>The \<open>authorized\<close> callback of \<open>auth.config.ts\<close>\<close>

record Session =
  user :: "string option"

record NextUrl =
  origin :: string
  pathname :: string

text \<open>The callback returns \<open>true\<close>, \<open>false\<close> or a redirect response.\<close>

datatype authorized_return = Bool bool | Response_redirect string

definition authorized :: "Session option \<Rightarrow> NextUrl \<Rightarrow> authorized_return" where
  "authorized auth nextUrl =
     (let isLoggedIn = (case auth of None \<Rightarrow> False | Some s \<Rightarrow> user s \<noteq> None);
          isOnDashboard = prefix ''/dashboard'' (pathname nextUrl)
      in if isOnDashboard then (if isLoggedIn then Bool True else Bool False)
         else if isLoggedIn then Response_redirect (origin nextUrl @ ''/dashboard'')
         else Bool True)"

section \<open>A concrete environment\<close>

text \<open>
  \<open>Number(...)\<close> on \<open>null\<close>, on the empty string and on the plain decimal literals
  (an optional sign, digits, an optional fraction): the nearest binary64 value. Strings
  with white space, an exponent, a radix prefix or \<open>Infinity\<close> are outside this instance
  and are not used with it.
\<close>

definition digit_of :: "char \<Rightarrow> nat option" where
  "digit_of c =
     map_of [(CHR ''0'', 0), (CHR ''1'', 1), (CHR ''2'', 2), (CHR ''3'', 3), (CHR ''4'', 4),
             (CHR ''5'', 5), (CHR ''6'', 6), (CHR ''7'', 7), (CHR ''8'', 8), (CHR ''9'', 9)] c"

fun digits_value :: "string \<Rightarrow> nat \<Rightarrow> nat option" where
  "digits_value [] acc = Some acc"
| "digits_value (c # cs) acc =
     (case digit_of c of None \<Rightarrow> None | Some d \<Rightarrow> digits_value cs (10 * acc + d))"

definition decimal_literal :: "string \<Rightarrow> rat option" where
  "decimal_literal s =
     (let ip = takeWhile (\<lambda>c. c \<noteq> CHR ''.'') s;
          fp = drop 1 (dropWhile (\<lambda>c. c \<noteq> CHR ''.'') s)
      in if ip = [] \<and> fp = [] then None
         else case (digits_value ip 0, digits_value fp 0) of
                (Some i, Some f) \<Rightarrow> Some (of_nat i + of_nat f / 10 ^ length fp)
              | _ \<Rightarrow> None)"

definition Number_decimal :: "string option \<Rightarrow> jsnum" where
  "Number_decimal input =
     (case input of
        None \<Rightarrow> Fin 0
      | Some [] \<Rightarrow> Fin 0
      | Some (c # cs) \<Rightarrow>
          if c = CHR ''-'' then (case decimal_literal cs of None \<Rightarrow> NaN | Some r \<Rightarrow> double_of_rat (- r))
          else if c = CHR ''+'' then (case decimal_literal cs of None \<Rightarrow> NaN | Some r \<Rightarrow> double_of_rat r)
          else (case decimal_literal (c # cs) of None \<Rightarrow> NaN | Some r \<Rightarrow> double_of_rat r))"

text \<open>A stand-in for \<open>bcrypt.hash\<close>, which never fails on a string and a cost.\<close>

definition example_hash :: "string \<Rightarrow> nat \<Rightarrow> string" where
  "example_hash password rounds = ''hash:'' @ password"

text \<open>
  Modelled from the spec: \<open>signIn\<close> of \<open>@/auth\<close>, which is not among the sources. Section
  4.4: the credentials are verified against the stored users (the supplied password
  against the stored hash); on success a session is established and navigation is
  signalled; otherwise invalid credentials are reported and no session is established.
  The actions take \<open>signIn\<close> from the environment; this instance serves the worked
  examples only.
\<close>

definition example_signIn :: "FormData \<Rightarrow> world \<Rightarrow> (thrown + unit) \<times> world" where
  "example_signIn options w =
     (case (options ''email'', options ''password'') of
        (Some e, Some p) \<Rightarrow>
          (case find (\<lambda>u. user_email u = e) (users w) of
             Some u \<Rightarrow>
               if user_password u = example_hash p 10
               then (Inl (RedirectError ''/dashboard''), w\<lparr>session := Some e\<rparr>)
               else (Inl (AuthError ''CredentialsSignin''), w)
           | None \<Rightarrow> (Inl (AuthError ''CredentialsSignin''), w))
      | _ \<Rightarrow> (Inl (AuthError ''CredentialsSignin''), w))"

text \<open>
  The environment of the worked examples: a stand-in email pattern (the string has an
  \<open>@\<close>), the issue code's name as its default message, a store that raises no error
  of its own.
\<close>

definition example_defaultError :: "issue_code \<Rightarrow> string" where
  "example_defaultError c =
     (case c of
        invalid_type \<Rightarrow> ''invalid_type''
      | too_small \<Rightarrow> ''too_small''
      | invalid_string \<Rightarrow> ''invalid_string''
      | invalid_enum_value \<Rightarrow> ''invalid_enum_value''
      | custom \<Rightarrow> ''custom'')"

definition example_env :: env where
  "example_env =
     \<lparr>emailRegex = (\<lambda>s. CHR ''@'' \<in> set s),
      defaultError = example_defaultError,
      Number = Number_decimal,
      bcrypt_hash = example_hash,
      today = ''2024-05-01'',
      db_fault = None,
      gen_id = ''inv-new'',
      signIn = example_signIn\<rparr>"

definition example_world :: world where
  "example_world =
     \<lparr>users = [\<lparr>user_id = ''u1'', user_email = ''ann@example.com'',
                user_password = ''hash:secret1'', user_name = ''Ann''\<rparr>],
      invoices = [\<lparr>invoice_id = ''inv-1'', customer_id = ''c1'', amount = Fin 1000,
                   status = ''pending'', date = ''2024-01-15''\<rparr>,
                  \<lparr>invoice_id = ''inv-2'', customer_id = ''c2'', amount = Fin 2500,
                   status = ''paid'', date = ''2024-02-20''\<rparr>],
      revalidated = [],
      session = None\<rparr>"

text \<open>The state a form starts from.\<close>

definition initialState :: State where
  "initialState = \<lparr>errors = Some [], message = ''''\<rparr>"

section \<open>Facts about the number model\<close>

lemma power_int_2_unique:
  fixes x :: rat
  assumes "2 powi e \<le> x" "x < 2 powi (e + 1)" "2 powi e' \<le> x" "x < 2 powi (e' + 1)"
  shows "e = e'"
proof (rule ccontr)
  assume ne: "e \<noteq> e'"
  show False
  proof (cases "e < e'")
    case True
    then have "(2::rat) powi (e + 1) \<le> 2 powi e'" by (intro power_int_increasing) simp_all
    then show False using assms by linarith
  next
    case False
    then have "(2::rat) powi (e' + 1) \<le> 2 powi e" using ne by (intro power_int_increasing) simp_all
    then show False using assms by linarith
  qed
qed

lemma floor_log2_bounds:
  assumes "0 < x"
  shows "2 powi (floor_log2 x) \<le> x \<and> x < 2 powi (floor_log2 x + 1)"
proof -
  obtain p q where pq: "quotient_of x = (p, q)" by (cases "quotient_of x")
  have q: "0 < q" using pq by (rule quotient_of_denom_pos)
  have x: "x = of_int p / of_int q" using pq by (rule quotient_of_div)
  have p: "0 < p" using assms q x by (simp add: zero_less_divide_iff)
  define bp where "bp = floorlog 2 (nat p)"
  define bq where "bq = floorlog 2 (nat q)"
  have bp: "2 ^ (bp - 1) \<le> nat p \<and> nat p < 2 ^ bp"
    unfolding bp_def using floorlog_bounds[of "nat p" 2] p by simp
  have bq: "2 ^ (bq - 1) \<le> nat q \<and> nat q < 2 ^ bq"
    unfolding bq_def using floorlog_bounds[of "nat q" 2] q by simp
  have bp0: "0 < bp" unfolding bp_def using p by (simp add: floorlog_def)
  have bq0: "0 < bq" unfolding bq_def using q by (simp add: floorlog_def)
  define d where "d = int bp - int bq"
  have pr: "(2::rat) ^ (bp - 1) \<le> of_int p \<and> (of_int p :: rat) < 2 ^ bp"
  proof -
    have "of_nat (2 ^ (bp - 1)) \<le> (of_nat (nat p) :: rat)" using bp by (simp only: of_nat_le_iff)
    moreover have "(of_nat (nat p) :: rat) < of_nat (2 ^ bp)" using bp by (simp only: of_nat_less_iff)
    ultimately show ?thesis using p by simp
  qed
  have qr: "(2::rat) ^ (bq - 1) \<le> of_int q \<and> (of_int q :: rat) < 2 ^ bq"
  proof -
    have "of_nat (2 ^ (bq - 1)) \<le> (of_nat (nat q) :: rat)" using bq by (simp only: of_nat_le_iff)
    moreover have "(of_nat (nat q) :: rat) < of_nat (2 ^ bq)" using bq by (simp only: of_nat_less_iff)
    ultimately show ?thesis using q by simp
  qed
  have qpos: "(0::rat) < of_int q" using q by simp
  have up: "x < 2 powi (d + 1)"
  proof -
    have "of_int p < (2::rat) ^ bp" using pr by simp
    also have "\<dots> = 2 powi (d + 1) * 2 ^ (bq - 1)"
      using bq0 by (simp add: d_def power_int_add power_int_diff power_diff)
    also have "\<dots> \<le> 2 powi (d + 1) * of_int q"
      using qr by (simp add: mult_left_mono)
    finally show ?thesis using qpos by (simp add: x pos_divide_less_eq)
  qed
  have lo: "2 powi (d - 1) \<le> x"
  proof -
    have "2 powi (d - 1) * (of_int q :: rat) \<le> 2 powi (d - 1) * 2 ^ bq"
      using qr by (simp add: mult_left_mono)
    also have "\<dots> = 2 ^ (bp - 1)"
      using bp0 by (simp add: d_def power_int_add power_int_diff power_diff)
    also have "\<dots> \<le> of_int p" using pr by simp
    finally show ?thesis using qpos by (simp add: x pos_le_divide_eq)
  qed
  have fl: "floor_log2 x = (if 2 powi d \<le> x then d else d - 1)"
    by (simp add: floor_log2_def pq d_def bp_def bq_def Let_def)
  show ?thesis
  proof (cases "2 powi d \<le> x")
    case True
    then show ?thesis using up fl by simp
  next
    case False
    then show ?thesis using lo fl by simp
  qed
qed

lemma floor_log2_eqI:
  assumes "2 powi e \<le> x" "x < 2 powi (e + 1)"
  shows "floor_log2 x = e"
proof -
  have "0 < x" using assms(1) zero_less_power_int[of "2::rat" e] by linarith
  from floor_log2_bounds[OF this] assms show ?thesis
    using power_int_2_unique by blast
qed

lemma round_half_even_eqI:
  assumes "of_int m - 1 / 2 < y" "y < of_int m + 1 / 2"
  shows "round_half_even y = m"
proof -
  have 1: "of_int (m - 1) \<le> y" using assms by simp
  have 2: "y < of_int (m + 1)" using assms by simp
  have "m - 1 \<le> \<lfloor>y\<rfloor>" using 1 by (simp only: le_floor_iff)
  moreover have "\<lfloor>y\<rfloor> < m + 1" using 2 by (simp only: floor_less_iff)
  ultimately have "\<lfloor>y\<rfloor> = m \<or> \<lfloor>y\<rfloor> = m - 1" by linarith
  then show ?thesis
  proof
    assume f: "\<lfloor>y\<rfloor> = m"
    then have "y - of_int m < 1 / 2" using assms by linarith
    then show ?thesis by (simp add: round_half_even_def Let_def f)
  next
    assume f: "\<lfloor>y\<rfloor> = m - 1"
    then have "1 / 2 < y - of_int (m - 1)" using assms by simp
    then show ?thesis by (simp add: round_half_even_def Let_def f)
  qed
qed

lemma round_half_even_of_int: "round_half_even (of_int z) = z"
  by (simp add: round_half_even_def)

lemma double_of_rat_eqI:
  assumes e: "2 powi e \<le> x" "x < 2 powi (e + 1)" "- 1022 \<le> e"
    and m: "round_half_even (x / 2 powi (e - 52)) = m"
    and r: "of_int m * 2 powi (e - 52) < (2::rat) powi 1024"
  shows "double_of_rat x = Fin (of_int m * 2 powi (e - 52))"
proof -
  have x: "0 < x" using e(1) zero_less_power_int[of "2::rat" e] by linarith
  have ax: "\<bar>x\<bar> = x" using x by simp
  have nz: "(x = 0) = False" using x by simp
  have "floor_log2 x = e" using e by (intro floor_log2_eqI)
  then have mx: "max (floor_log2 x) (- 1022) = e" using e(3) by linarith
  have nr: "(2 powi 1024 \<le> rat_of_int m * 2 powi (e - 52)) = False"
    using r by (simp only: not_le[symmetric])
  have xt: "(0 < x) = True" using x by simp
  show ?thesis
    unfolding double_of_rat_def Let_def ax mx m nz nr xt by (simp only: if_False if_True)
qed

text \<open>An integer below \<open>2 ^ 53\<close> is a binary64 value.\<close>

lemma double_of_rat_of_int:
  assumes n: "0 < n" "n < 2 ^ 53"
  shows "double_of_rat (of_int n) = Fin (of_int n)"
proof -
  define x :: rat where "x = of_int n"
  have x0: "0 < x" using n by (simp add: x_def)
  have x1: "1 \<le> x" using n by (simp add: x_def)
  have "(of_int n :: rat) < of_int (2 ^ 53)" using n(2) by (simp only: of_int_less_iff)
  then have xu: "x < 2 powi 53" by (simp add: x_def)
  define e where "e = floor_log2 x"
  have b: "2 powi e \<le> x" "x < 2 powi (e + 1)"
    using floor_log2_bounds[OF x0] by (simp_all add: e_def)
  have e0: "0 \<le> e"
  proof (rule ccontr)
    assume "\<not> 0 \<le> e"
    then have "(2::rat) powi (e + 1) \<le> 2 powi 0" by (intro power_int_increasing) simp_all
    then show False using b(2) x1 by simp
  qed
  have e52: "e \<le> 52"
  proof (rule ccontr)
    assume "\<not> e \<le> 52"
    then have "(2::rat) powi 53 \<le> 2 powi e" by (intro power_int_increasing) simp_all
    then show False using b(1) xu by linarith
  qed
  define k where "k = nat (52 - e)"
  have ek: "e - 52 = - int k" using e52 by (simp add: k_def)
  have ulp: "(2::rat) powi (e - 52) = 1 / 2 ^ k"
    unfolding ek by (simp add: power_int_minus field_simps)
  have q: "x / 2 powi (e - 52) = of_int (n * 2 ^ k)" by (simp add: ulp x_def)
  have m: "round_half_even (x / 2 powi (e - 52)) = n * 2 ^ k"
    unfolding q by (rule round_half_even_of_int)
  have rb: "of_int (n * 2 ^ k) * 2 powi (e - 52) = x" by (simp add: ulp x_def)
  have "(2::rat) powi 53 \<le> 2 powi 1024" by (intro power_int_increasing) simp_all
  then have r: "of_int (n * 2 ^ k) * 2 powi (e - 52) < (2::rat) powi 1024"
    unfolding rb using xu by linarith
  have emin: "- 1022 \<le> e" using e0 by linarith
  have "double_of_rat x = Fin (of_int (n * 2 ^ k) * 2 powi (e - 52))"
    by (rule double_of_rat_eqI[OF b(1) b(2) emin m r])
  then show ?thesis unfolding rb by (simp add: x_def)
qed

text \<open>
  The decimal \<open>19.99\<close> is not a binary64 value: the nearest one lies below it, and its
  product with \<open>100\<close> rounds to the binary64 value just below \<open>1999\<close>.
\<close>

lemma double_of_rat_19_99: "double_of_rat (1999 / 100) = Fin (5626684784446013 / 2 ^ 48)"
proof -
  have "double_of_rat (1999 / 100) = Fin (of_int 5626684784446013 * 2 powi (4 - 52))"
  proof (rule double_of_rat_eqI)
    show "round_half_even (1999 / 100 / 2 powi (4 - 52)) = 5626684784446013"
      by (rule round_half_even_eqI) simp_all
  qed simp_all
  then show ?thesis by simp
qed

lemma js_mul_19_99: "js_mul (Fin (5626684784446013 / 2 ^ 48)) (Fin 100) = Fin (1999 - 1 / 2 ^ 42)"
proof -
  have "double_of_rat (5626684784446013 / 2 ^ 48 * 100)
          = Fin (of_int 8791694975696895 * 2 powi (10 - 52))"
  proof (rule double_of_rat_eqI)
    show "round_half_even (5626684784446013 / 2 ^ 48 * 100 / 2 powi (10 - 52)) = 8791694975696895"
      by (rule round_half_even_eqI) simp_all
  qed simp_all
  then show ?thesis by simp
qed

section \<open>Facts about the schemas\<close>

lemmas schema_defs =
  CreateInvoice_def UpdateInvoice_def RegisterSchema_def FullRegisterSchema_def
  ZodString_parse_def ZodNumber_gt0_parse_def ZodEnum_parse_def email_check_def min_check_def

lemmas Number_decimal_defs = Number_decimal_def decimal_literal_def digit_of_def

lemma UpdateInvoice_eq: "UpdateInvoice env input = CreateInvoice env input"
  by (simp add: UpdateInvoice_def CreateInvoice_def)

lemma parse_eq_Inr: "(parse x = Inr v) = (safeParse x = SafeSuccess v)"
  by (cases x rule: safeParse.cases) simp_all

lemma parse_eq_Inl: "(parse x = Inl err) = (\<exists>issues. safeParse x = SafeError issues \<and> err = ZodError issues)"
  by (cases x rule: safeParse.cases) auto

lemma safeParse_SafeError: "(safeParse x = SafeError issues) = (fst x = issues \<and> (\<forall>v. snd x \<noteq> VALID v))"
  by (cases x rule: safeParse.cases) auto

text \<open>When the invoice schema accepts, and what it yields.\<close>

lemma CreateInvoice_success:
  "(safeParse (CreateInvoice env (ci, am, st)) = SafeSuccess (c, a, s)) =
     (ci = Some c \<and> a = Number env am \<and> a \<noteq> NaN \<and> \<not> js_le_zero a \<and>
      st = Some s \<and> (s = ''pending'' \<or> s = ''paid''))"
  by (cases ci; cases st; cases "Number env am = NaN"; cases "js_le_zero (Number env am)")
     (auto simp: CreateInvoice_def ZodString_parse_def ZodNumber_gt0_parse_def ZodEnum_parse_def Let_def)

lemma Number_decimal_50: "Number_decimal (Some ''50'') = Fin 50"
  using double_of_rat_of_int[of 50] by (simp add: Number_decimal_defs)

lemma Number_decimal_19_99: "Number_decimal (Some ''19.99'') = Fin (5626684784446013 / 2 ^ 48)"
  using double_of_rat_19_99 by (simp add: Number_decimal_defs)

lemma Number_decimal_minus_5: "Number_decimal (Some ''-5'') = Fin (- 5)"
proof -
  have "double_of_rat (- 5) = Fin (- 5)"
    using double_of_rat_of_int[of 5]
    by (simp add: double_of_rat_def Let_def split: if_splits)
  then show ?thesis by (simp add: Number_decimal_defs)
qed

text \<open>The issues the invoice schema collects, field by field, and when it rejects.\<close>

lemma CreateInvoice_issues:
  "fst (CreateInvoice env (ci, am, st)) =
     (case ci of None \<Rightarrow> [ZodIssue invalid_type [''customerId''] ''Please select a customer.'']
      | Some c \<Rightarrow> [])
     @ (if Number env am = NaN
        then [ZodIssue invalid_type [''amount''] (defaultError env invalid_type)]
        else if js_le_zero (Number env am)
        then [ZodIssue too_small [''amount''] ''Please enter an amount greater than $0.'']
        else [])
     @ (case st of None \<Rightarrow> [ZodIssue invalid_type [''status''] ''Please select an invoice status.'']
        | Some s \<Rightarrow>
            if s = ''pending'' \<or> s = ''paid'' then []
            else [ZodIssue invalid_enum_value [''status''] (defaultError env invalid_enum_value)])"
  by (simp add: CreateInvoice_def ZodString_parse_def ZodNumber_gt0_parse_def ZodEnum_parse_def
      Let_def split: option.split)

lemma CreateInvoice_rejects:
  "(\<forall>v. snd (CreateInvoice env (ci, am, st)) \<noteq> VALID v) =
     (ci = None \<or> Number env am = NaN \<or> js_le_zero (Number env am)
      \<or> st \<notin> {Some ''pending'', Some ''paid''})"
  by (cases ci; cases st; cases "Number env am = NaN"; cases "js_le_zero (Number env am)")
     (auto simp: CreateInvoice_def ZodString_parse_def ZodNumber_gt0_parse_def ZodEnum_parse_def Let_def)

lemma CreateInvoice_safeParse_error:
  assumes "ci = None \<or> Number env am = NaN \<or> js_le_zero (Number env am)
      \<or> st \<notin> {Some ''pending'', Some ''paid''}"
  shows "safeParse (CreateInvoice env (ci, am, st)) = SafeError (fst (CreateInvoice env (ci, am, st)))"
  using assms unfolding safeParse_SafeError CreateInvoice_rejects by simp

lemma fieldErrors_customerId:
  "(map_of (fieldErrors (fst (CreateInvoice env (ci, am, st)))) ''customerId'' \<noteq> None) = (ci = None)"
  unfolding CreateInvoice_issues by (simp add: fieldErrors_def split: option.split)

lemma fieldErrors_amount:
  "(map_of (fieldErrors (fst (CreateInvoice env (ci, am, st)))) ''amount'' \<noteq> None)
     = (Number env am = NaN \<or> js_le_zero (Number env am))"
  unfolding CreateInvoice_issues by (simp add: fieldErrors_def split: option.split)

lemma fieldErrors_status:
  "(map_of (fieldErrors (fst (CreateInvoice env (ci, am, st)))) ''status'' \<noteq> None)
     = (st \<notin> {Some ''pending'', Some ''paid''})"
  unfolding CreateInvoice_issues by (auto simp add: fieldErrors_def split: option.split)

lemma fieldErrors_amount_le_zero:
  assumes "js_le_zero (Number env am)"
  shows "map_of (fieldErrors (fst (CreateInvoice env (ci, am, st)))) ''amount''
           = Some [''Please enter an amount greater than $0.'']"
proof -
  have "Number env am \<noteq> NaN" using assms by auto
  then show ?thesis
    unfolding CreateInvoice_issues using assms by (simp add: fieldErrors_def split: option.split)
qed

lemma fieldErrors_amount_NaN:
  assumes "Number env am = NaN"
  shows "map_of (fieldErrors (fst (CreateInvoice env (ci, am, st)))) ''amount''
           = Some [defaultError env invalid_type]"
  unfolding CreateInvoice_issues using assms by (simp add: fieldErrors_def split: option.split)

section \<open>The claims\<close>

text \<open>
  What both actions store for every submission that the invoice schema accepts, with
  amount \<open>a\<close>, when the store raises no error: \<open>createInvoice\<close> inserts and
  \<open>updateInvoice\<close> sets the amount \<open>a * 100\<close> as binary64 multiplication gives it;
  \<open>a\<close> is \<open>Number(...)\<close> of the submitted string and is greater than 0; and whenever
  the exact product is an integer below \<open>2^53\<close>, the stored amount is that integer.
\<close>

theorem invoice_amount_is_double_product:
  assumes ok: "safeParse (CreateInvoice env
                 (formData ''customerId'', formData ''amount'', formData ''status''))
               = SafeSuccess (c, a, s)"
    and store: "db_fault env = None"
  shows "invoices (snd (createInvoice env prevState formData w)) =
           invoices w @ [\<lparr>invoice_id = gen_id env, customer_id = c,
                           amount = js_mul a (Fin 100), status = s, date = today env\<rparr>]
       \<and> invoices (snd (updateInvoice env i formData w)) =
           map (\<lambda>r. if invoice_id r = i
                     then r\<lparr>customer_id := c, amount := js_mul a (Fin 100), status := s\<rparr>
                     else r) (invoices w)
       \<and> a = Number env (formData ''amount'') \<and> a \<noteq> NaN \<and> \<not> js_le_zero a
       \<and> (\<forall>x n. a = Fin x \<and> x * 100 = of_int n \<and> n < 2 ^ 53
             \<longrightarrow> js_mul a (Fin 100) = Fin (of_int n))"
proof -
  have create: "invoices (snd (createInvoice env prevState formData w)) =
           invoices w @ [\<lparr>invoice_id = gen_id env, customer_id = c,
                           amount = js_mul a (Fin 100), status = s, date = today env\<rparr>]"
    using ok store by (simp add: createInvoice_def sql_INSERT_invoices_def revalidatePath_def)
  have "parse (UpdateInvoice env (formData ''customerId'', formData ''amount'', formData ''status''))
          = Inr (c, a, s)"
    using ok by (simp add: parse_eq_Inr UpdateInvoice_eq)
  then have update: "invoices (snd (updateInvoice env i formData w)) =
           map (\<lambda>r. if invoice_id r = i
                     then r\<lparr>customer_id := c, amount := js_mul a (Fin 100), status := s\<rparr>
                     else r) (invoices w)"
    using store by (simp add: updateInvoice_def sql_UPDATE_invoices_def revalidatePath_def)
  have a: "a = Number env (formData ''amount'')" "a \<noteq> NaN" "\<not> js_le_zero a"
    using ok unfolding CreateInvoice_success by blast+
  have exact: "js_mul a (Fin 100) = Fin (of_int n)"
    if "a = Fin x" "x * 100 = of_int n" "n < 2 ^ 53" for x n
  proof -
    have "0 < x" using a(3) that(1) by simp
    then have "(0::rat) < of_int n" using that(2) by (metis mult_pos_pos zero_less_numeral)
    then have "0 < n" by simp
    then show ?thesis
      using double_of_rat_of_int[of n] that by simp
  qed
  show ?thesis using create update a exact by blast
qed

theorem invoice_amount_is_double_product_witness:
  "safeParse (CreateInvoice example_env (Some ''abc'', Some ''50'', Some ''pending''))
     = SafeSuccess (''abc'', Fin 50, ''pending'')
   \<and> db_fault example_env = None
   \<and> invoices (snd (createInvoice example_env initialState
        [''customerId'' \<mapsto> ''abc'', ''amount'' \<mapsto> ''50'', ''status'' \<mapsto> ''pending'']
        example_world)) =
       invoices example_world @ [\<lparr>invoice_id = ''inv-new'', customer_id = ''abc'',
          amount = Fin 5000, status = ''pending'', date = ''2024-05-01''\<rparr>]
   \<and> map amount (invoices (snd (updateInvoice example_env ''inv-1''
        [''customerId'' \<mapsto> ''abc'', ''amount'' \<mapsto> ''50'', ''status'' \<mapsto> ''pending'']
        example_world))) = [Fin 5000, Fin 2500]"
proof -
  have ok: "safeParse (CreateInvoice example_env (Some ''abc'', Some ''50'', Some ''pending''))
     = SafeSuccess (''abc'', Fin 50, ''pending'')"
    unfolding CreateInvoice_success by (simp add: example_env_def Number_decimal_50)
  have store: "db_fault example_env = None" by (simp add: example_env_def)
  have m: "js_mul (Fin 50) (Fin 100) = Fin 5000"
    using double_of_rat_of_int[of 5000] by simp
  show ?thesis
    using invoice_amount_is_double_product[of example_env
        "[''customerId'' \<mapsto> ''abc'', ''amount'' \<mapsto> ''50'', ''status'' \<mapsto> ''pending'']"
        "''abc''" "Fin 50" "''pending''" initialState example_world "''inv-1''"] ok store
    by (simp add: m example_env_def example_world_def)
qed

text \<open>
  C1: the stored amount should be the validated amount times 100 as a whole number of
  minor units, in \<open>createInvoice\<close> and in \<open>updateInvoice\<close>: 19.99 is 1999 cents. Both
  actions compute \<open>amountInCents = amount * 100\<close> in binary64 and store the product as
  it is: for the submitted amount \<open>19.99\<close> that is \<open>1999 - 2^-42\<close> (printed
  \<open>1998.9999999999998\<close>), which is not 1999.
\<close>

theorem createInvoice_19_99_not_1999:
  "amount (last (invoices (snd (createInvoice example_env initialState
       [''customerId'' \<mapsto> ''abc'', ''amount'' \<mapsto> ''19.99'', ''status'' \<mapsto> ''pending'']
       example_world)))) = Fin (1999 - 1 / 2 ^ 42)
   \<and> map amount (invoices (snd (updateInvoice example_env ''inv-1''
       [''customerId'' \<mapsto> ''abc'', ''amount'' \<mapsto> ''19.99'', ''status'' \<mapsto> ''pending'']
       example_world))) = [Fin (1999 - 1 / 2 ^ 42), Fin 2500]
   \<and> Fin (1999 - 1 / 2 ^ 42) \<noteq> Fin 1999"
proof -
  have ok: "safeParse (CreateInvoice example_env (Some ''abc'', Some ''19.99'', Some ''pending''))
          = SafeSuccess (''abc'', Fin (5626684784446013 / 2 ^ 48), ''pending'')"
    unfolding CreateInvoice_success by (simp add: example_env_def Number_decimal_19_99)
  then have create: "amount (last (invoices (snd (createInvoice example_env initialState
       [''customerId'' \<mapsto> ''abc'', ''amount'' \<mapsto> ''19.99'', ''status'' \<mapsto> ''pending'']
       example_world)))) = js_mul (Fin (5626684784446013 / 2 ^ 48)) (Fin 100)"
    by (simp add: createInvoice_def sql_INSERT_invoices_def revalidatePath_def example_env_def
        del: js_mul.simps)
  have "parse (UpdateInvoice example_env (Some ''abc'', Some ''19.99'', Some ''pending''))
          = Inr (''abc'', Fin (5626684784446013 / 2 ^ 48), ''pending'')"
    using ok by (simp add: parse_eq_Inr UpdateInvoice_eq)
  then have update: "map amount (invoices (snd (updateInvoice example_env ''inv-1''
       [''customerId'' \<mapsto> ''abc'', ''amount'' \<mapsto> ''19.99'', ''status'' \<mapsto> ''pending'']
       example_world))) = [js_mul (Fin (5626684784446013 / 2 ^ 48)) (Fin 100), Fin 2500]"
    by (simp add: updateInvoice_def sql_UPDATE_invoices_def revalidatePath_def example_env_def
        example_world_def del: js_mul.simps)
  show ?thesis using create update unfolding js_mul_19_99 by simp
qed

text \<open>
  What \<open>updateInvoice\<close> does on every submission that fails the invoice schema: it
  calls \<open>UpdateInvoice.parse\<close> outside any \<open>try\<close>, so the \<open>ZodError\<close> with the
  schema's issues (at least one, each under its field) is thrown past the action; the
  world is unchanged.
\<close>

lemma updateInvoice_invalid_throws_unchanged:
  assumes "formData ''customerId'' = None \<or> Number env (formData ''amount'') = NaN
      \<or> js_le_zero (Number env (formData ''amount''))
      \<or> formData ''status'' \<notin> {Some ''pending'', Some ''paid''}"
  shows "updateInvoice env i formData w =
           (Inl (ZodError (fst (UpdateInvoice env
              (formData ''customerId'', formData ''amount'', formData ''status'')))), w)
       \<and> fieldErrors (fst (UpdateInvoice env
              (formData ''customerId'', formData ''amount'', formData ''status''))) \<noteq> []"
proof -
  let ?input = "(formData ''customerId'', formData ''amount'', formData ''status'')"
  have "safeParse (UpdateInvoice env ?input) = SafeError (fst (UpdateInvoice env ?input))"
    unfolding UpdateInvoice_eq using assms by (rule CreateInvoice_safeParse_error)
  then have "parse (UpdateInvoice env ?input) = Inl (ZodError (fst (UpdateInvoice env ?input)))"
    by (simp add: parse_eq_Inl)
  then have thrown: "updateInvoice env i formData w = (Inl (ZodError (fst (UpdateInvoice env ?input))), w)"
    by (simp add: updateInvoice_def)
  have "map_of (fieldErrors (fst (CreateInvoice env ?input))) ''customerId'' \<noteq> None
      \<or> map_of (fieldErrors (fst (CreateInvoice env ?input))) ''amount'' \<noteq> None
      \<or> map_of (fieldErrors (fst (CreateInvoice env ?input))) ''status'' \<noteq> None"
    unfolding fieldErrors_customerId fieldErrors_amount fieldErrors_status using assms by blast
  then have "fieldErrors (fst (CreateInvoice env ?input)) \<noteq> []" by auto
  then show ?thesis using thrown by (simp add: UpdateInvoice_eq)
qed

text \<open>
  C2: \<open>updateInvoice\<close> on fields that fail validation should return an error value with
  field-keyed messages and not throw past the action, with no update, invalidation or
  navigation. The effects part holds (the world is unchanged), the return part does not:
  for the amount \<open>-5\<close> the action throws the \<open>ZodError\<close>, where \<open>createInvoice\<close> on
  the same fields returns the errors.
\<close>

theorem updateInvoice_invalid_amount_throws:
  "updateInvoice example_env ''inv-1''
     [''customerId'' \<mapsto> ''c1'', ''amount'' \<mapsto> ''-5'', ''status'' \<mapsto> ''pending'']
     example_world
   = (Inl (ZodError [ZodIssue too_small [''amount''] ''Please enter an amount greater than $0.'']),
      example_world)
   \<and> createInvoice example_env initialState
     [''customerId'' \<mapsto> ''c1'', ''amount'' \<mapsto> ''-5'', ''status'' \<mapsto> ''pending'']
     example_world
   = (Inr \<lparr>errors = Some [(''amount'', [''Please enter an amount greater than $0.''])],
            message = ''Missing Fields. Failed to Create Invoice.''\<rparr>, example_world)"
  by (simp add: updateInvoice_def createInvoice_def UpdateInvoice_def CreateInvoice_def
      ZodString_parse_def ZodNumber_gt0_parse_def ZodEnum_parse_def fieldErrors_def
      example_env_def Number_decimal_minus_5)

text \<open>
  C6, as stated: every failure of the amount field carries
  \<open>Please enter an amount greater than $0.\<close> That message belongs to the \<open>gt(0)\<close>
  check only: an amount that \<open>Number(...)\<close> turns into \<open>NaN\<close> fails with the
  \<open>invalid_type\<close> issue and the library's default message.
\<close>

theorem createInvoice_nan_amount_default_message:
  "createInvoice example_env initialState
     [''customerId'' \<mapsto> ''c1'', ''amount'' \<mapsto> ''abc'', ''status'' \<mapsto> ''pending'']
     example_world
   = (Inr \<lparr>errors = Some [(''amount'', [defaultError example_env invalid_type])],
            message = ''Missing Fields. Failed to Create Invoice.''\<rparr>, example_world)
   \<and> defaultError example_env invalid_type \<noteq> ''Please enter an amount greater than $0.''"
  by (simp add: createInvoice_def CreateInvoice_def ZodString_parse_def ZodNumber_gt0_parse_def
      ZodEnum_parse_def fieldErrors_def example_env_def example_defaultError_def
      Number_decimal_defs)

text \<open>
  C6, amended: whenever a field of a \<open>createInvoice\<close> submission is invalid (no
  customer, an amount that is not a number or is \<open><= 0\<close>, a status other than
  \<open>pending\<close> and \<open>paid\<close>), the action returns the errors of the schema with the message
  \<open>Missing Fields. Failed to Create Invoice.\<close>; the errors have an entry for a field
  exactly when that field fails, so all failing fields are reported together; an amount
  \<open><= 0\<close> carries \<open>Please enter an amount greater than $0.\<close>, an amount that is not a
  number carries the default message of an invalid type; and the world is unchanged: no
  row inserted, no cache invalidation, and the action returns instead of navigating.
\<close>

theorem createInvoice_invalid_returns_all_errors:
  fixes env formData
  defines "n \<equiv> Number env (formData ''amount'')"
    and "E \<equiv> fieldErrors (fst (CreateInvoice env
                 (formData ''customerId'', formData ''amount'', formData ''status'')))"
  assumes "formData ''customerId'' = None \<or> n = NaN \<or> js_le_zero n
      \<or> formData ''status'' \<notin> {Some ''pending'', Some ''paid''}"
  shows "createInvoice env prevState formData w =
           (Inr \<lparr>errors = Some E, message = ''Missing Fields. Failed to Create Invoice.''\<rparr>, w)
       \<and> (map_of E ''customerId'' \<noteq> None) = (formData ''customerId'' = None)
       \<and> (map_of E ''amount'' \<noteq> None) = (n = NaN \<or> js_le_zero n)
       \<and> (map_of E ''status'' \<noteq> None) = (formData ''status'' \<notin> {Some ''pending'', Some ''paid''})
       \<and> (js_le_zero n \<longrightarrow> map_of E ''amount'' = Some [''Please enter an amount greater than $0.''])
       \<and> (n = NaN \<longrightarrow> map_of E ''amount'' = Some [defaultError env invalid_type])"
proof -
  let ?input = "(formData ''customerId'', formData ''amount'', formData ''status'')"
  have "safeParse (CreateInvoice env ?input) = SafeError (fst (CreateInvoice env ?input))"
    using assms(3) unfolding n_def by (rule CreateInvoice_safeParse_error)
  then have r: "createInvoice env prevState formData w =
           (Inr \<lparr>errors = Some E, message = ''Missing Fields. Failed to Create Invoice.''\<rparr>, w)"
    by (simp add: createInvoice_def E_def)
  show ?thesis
    unfolding E_def n_def fieldErrors_customerId fieldErrors_amount fieldErrors_status
    using r fieldErrors_amount_le_zero[of env "formData ''amount''"]
      fieldErrors_amount_NaN[of env "formData ''amount''"]
    by (simp add: E_def)
qed

theorem createInvoice_invalid_returns_all_errors_witness:
  "js_le_zero (Number example_env ([''amount'' \<mapsto> ''-5'', ''status'' \<mapsto> ''x''] ''amount''))
   \<and> createInvoice example_env initialState [''amount'' \<mapsto> ''-5'', ''status'' \<mapsto> ''x''] example_world
     = (Inr \<lparr>errors = Some [(''customerId'', [''Please select a customer.'']),
                            (''amount'', [''Please enter an amount greater than $0.'']),
                            (''status'', [''invalid_enum_value''])],
              message = ''Missing Fields. Failed to Create Invoice.''\<rparr>, example_world)"
proof -
  have h: "js_le_zero (Number example_env ([''amount'' \<mapsto> ''-5'', ''status'' \<mapsto> ''x''] ''amount''))"
    by (simp add: example_env_def Number_decimal_minus_5)
  have e: "fieldErrors (fst (CreateInvoice example_env (None, Some ''-5'', Some ''x'')))
        = [(''customerId'', [''Please select a customer.'']),
           (''amount'', [''Please enter an amount greater than $0.'']),
           (''status'', [''invalid_enum_value''])]"
    unfolding CreateInvoice_issues
    by (simp add: fieldErrors_def example_env_def Number_decimal_minus_5 example_defaultError_def)
  show ?thesis
    using h createInvoice_invalid_returns_all_errors[of
        "[''amount'' \<mapsto> ''-5'', ''status'' \<mapsto> ''x'']" example_env initialState example_world]
    by (simp add: e)
qed

text \<open>
  C3: when the fields of a registration are valid and the insert of the user fails with
  the unique-constraint violation (code \<open>23505\<close>: the email is already stored),
  \<open>register\<close> returns exactly \<open>{message: 'Email already exists. Please sign in.'}\<close>,
  which is not the generic failure message, and the world, so the users table, is as it
  was: no duplicate row.
\<close>

theorem register_duplicate_email:
  assumes valid: "safeParse (FullRegisterSchema env
                    (formData ''email'', formData ''name'', formData ''password'',
                     formData ''confirm-password'')) = SafeSuccess (e, n, p, c)"
    and dup: "createUser env (e, bcrypt_hash env p 10, n) w = (Inl (DatabaseError ''23505''), w')"
  shows "register env prevState formData w =
           (Inr (Some \<lparr>errors = None, message = ''Email already exists. Please sign in.''\<rparr>), w)
       \<and> w' = w
       \<and> ''Email already exists. Please sign in.'' \<noteq> ''Something went wrong, please try again.''"
proof -
  have same: "w' = w"
    using dup
    by (auto simp: createUser_def sql_INSERT_users_def split: option.splits if_splits)
  have "register env prevState formData w =
           (Inr (Some \<lparr>errors = None, message = ''Email already exists. Please sign in.''\<rparr>), w')"
    using valid dup by (simp add: register_def register_catch_def error_code_def)
  then show ?thesis using same by simp
qed

theorem register_duplicate_email_witness:
  "safeParse (FullRegisterSchema example_env
      (Some ''ann@example.com'', Some ''Ann'', Some ''abcdef'', Some ''abcdef''))
     = SafeSuccess (''ann@example.com'', ''Ann'', ''abcdef'', ''abcdef'')
   \<and> createUser example_env (''ann@example.com'', bcrypt_hash example_env ''abcdef'' 10, ''Ann'')
        example_world = (Inl (DatabaseError ''23505''), example_world)
   \<and> register example_env None
        [''email'' \<mapsto> ''ann@example.com'', ''name'' \<mapsto> ''Ann'', ''password'' \<mapsto> ''abcdef'',
         ''confirm-password'' \<mapsto> ''abcdef''] example_world
      = (Inr (Some \<lparr>errors = None, message = ''Email already exists. Please sign in.''\<rparr>),
         example_world)"
proof -
  have valid: "safeParse (FullRegisterSchema example_env
      (Some ''ann@example.com'', Some ''Ann'', Some ''abcdef'', Some ''abcdef''))
     = SafeSuccess (''ann@example.com'', ''Ann'', ''abcdef'', ''abcdef'')"
    by (simp add: schema_defs example_env_def)
  have dup: "createUser example_env (''ann@example.com'', bcrypt_hash example_env ''abcdef'' 10, ''Ann'')
        example_world = (Inl (DatabaseError ''23505''), example_world)"
    by (simp add: createUser_def sql_INSERT_users_def example_env_def example_world_def)
  show ?thesis
    using valid dup register_duplicate_email[of example_env
        "[''email'' \<mapsto> ''ann@example.com'', ''name'' \<mapsto> ''Ann'', ''password'' \<mapsto> ''abcdef'',
          ''confirm-password'' \<mapsto> ''abcdef'']"
        "''ann@example.com''" "''Ann''" "''abcdef''" "''abcdef''" example_world example_world None]
    by simp
qed

text \<open>
  C4: when validation and the insert of the user succeed and \<open>signIn\<close> raises a
  navigation signal, \<open>register\<close> raises the navigation signal to \<open>/dashboard\<close>; it does
  not return the generic failure message.
\<close>

theorem register_signIn_redirect_propagates:
  assumes valid: "safeParse (FullRegisterSchema env
                    (formData ''email'', formData ''name'', formData ''password'',
                     formData ''confirm-password'')) = SafeSuccess (e, n, p, c)"
    and inserted: "createUser env (e, bcrypt_hash env p 10, n) w = (Inr 1, w1)"
    and signal: "signIn env [''email'' \<mapsto> e, ''password'' \<mapsto> p] w1 = (Inl (RedirectError url), w2)"
  shows "register env prevState formData w = (Inl (RedirectError ''/dashboard''), w2)
       \<and> fst (register env prevState formData w)
           \<noteq> Inr (Some \<lparr>errors = None, message = ''Something went wrong, please try again.''\<rparr>)"
  using valid inserted signal
  by (simp add: register_def register_catch_def error_code_def isRedirectError_def)

theorem register_signIn_redirect_propagates_witness:
  "safeParse (FullRegisterSchema example_env
      (Some ''bob@example.com'', Some ''Bob'', Some ''abcdef'', Some ''abcdef''))
     = SafeSuccess (''bob@example.com'', ''Bob'', ''abcdef'', ''abcdef'')
   \<and> fst (createUser example_env (''bob@example.com'', bcrypt_hash example_env ''abcdef'' 10, ''Bob'')
        example_world) = Inr 1
   \<and> fst (signIn example_env [''email'' \<mapsto> ''bob@example.com'', ''password'' \<mapsto> ''abcdef'']
        (snd (createUser example_env
           (''bob@example.com'', bcrypt_hash example_env ''abcdef'' 10, ''Bob'') example_world)))
      = Inl (RedirectError ''/dashboard'')
   \<and> fst (register example_env None
        [''email'' \<mapsto> ''bob@example.com'', ''name'' \<mapsto> ''Bob'', ''password'' \<mapsto> ''abcdef'',
         ''confirm-password'' \<mapsto> ''abcdef''] example_world)
      = Inl (RedirectError ''/dashboard'')"
proof -
  define w1 where "w1 = example_world\<lparr>users := users example_world @
     [\<lparr>user_id = ''inv-new'', user_email = ''bob@example.com'',
       user_password = ''hash:abcdef'', user_name = ''Bob''\<rparr>]\<rparr>"
  have valid: "safeParse (FullRegisterSchema example_env
      (Some ''bob@example.com'', Some ''Bob'', Some ''abcdef'', Some ''abcdef''))
     = SafeSuccess (''bob@example.com'', ''Bob'', ''abcdef'', ''abcdef'')"
    by (simp add: schema_defs example_env_def)
  have inserted: "createUser example_env
        (''bob@example.com'', bcrypt_hash example_env ''abcdef'' 10, ''Bob'') example_world
      = (Inr 1, w1)"
    by (simp add: createUser_def sql_INSERT_users_def example_env_def example_world_def
        example_hash_def w1_def)
  have signal: "signIn example_env [''email'' \<mapsto> ''bob@example.com'', ''password'' \<mapsto> ''abcdef''] w1
      = (Inl (RedirectError ''/dashboard''), w1\<lparr>session := Some ''bob@example.com''\<rparr>)"
    by (simp add: example_env_def example_signIn_def example_world_def example_hash_def w1_def)
  show ?thesis
    using valid inserted signal register_signIn_redirect_propagates[of example_env
        "[''email'' \<mapsto> ''bob@example.com'', ''name'' \<mapsto> ''Bob'', ''password'' \<mapsto> ''abcdef'',
          ''confirm-password'' \<mapsto> ''abcdef'']"
        "''bob@example.com''" "''Bob''" "''abcdef''" "''abcdef''" example_world w1
        "''/dashboard''" "w1\<lparr>session := Some ''bob@example.com''\<rparr>" None]
    by simp
qed

text \<open>
  C5, as stated: every submission whose password and confirmation have at least 6
  characters and differ gets a \<open>confirmPassword\<close> error. A submission without the
  \<open>email\<close> and \<open>name\<close> fields aborts the object schema before the refinement runs: the
  errors then have no \<open>confirmPassword\<close> entry.
\<close>

theorem register_mismatch_without_email_no_confirmPassword_error:
  "register example_env None
     [''password'' \<mapsto> ''abcdef'', ''confirm-password'' \<mapsto> ''abcdefg''] example_world
   = (Inr (Some \<lparr>errors = Some [(''email'', [''invalid_type'']), (''name'', [''invalid_type''])],
                 message = ''Missing Fields. Failed to Create User, please try again.''\<rparr>),
      example_world)
   \<and> map_of [(''email'', [''invalid_type'']), (''name'', [''invalid_type''])] ''confirmPassword''
       = None"
  by (simp add: register_def schema_defs fieldErrors_def example_env_def example_defaultError_def)

text \<open>
  C5, amended: for every submission in which all four fields are present, password and
  confirmation have at least 6 characters each and differ, \<open>register\<close> returns the
  errors of the schema, whose \<open>confirmPassword\<close> entry is the list with the message
  \<open>Password does not match\<close>, and the world is unchanged: no user row is inserted.
\<close>

theorem register_password_mismatch:
  assumes present: "formData ''email'' = Some e" "formData ''name'' = Some n"
      "formData ''password'' = Some p" "formData ''confirm-password'' = Some c"
    and long: "6 \<le> length p" "6 \<le> length c"
    and differ: "p \<noteq> c"
  shows "register env prevState formData w =
           (Inr (Some \<lparr>errors = Some (fieldErrors (fst (FullRegisterSchema env
                           (Some e, Some n, Some p, Some c)))),
                        message = ''Missing Fields. Failed to Create User, please try again.''\<rparr>), w)
       \<and> map_of (fieldErrors (fst (FullRegisterSchema env (Some e, Some n, Some p, Some c))))
             ''confirmPassword'' = Some [''Password does not match'']"
proof -
  have np: "\<not> length p < 6" "\<not> length c < 6" using long by simp_all
  have cp: "c \<noteq> p" using differ by simp
  have err: "safeParse (FullRegisterSchema env (Some e, Some n, Some p, Some c))
      = SafeError (fst (FullRegisterSchema env (Some e, Some n, Some p, Some c)))"
    using np cp
    by (cases "emailRegex env e"; cases "length n < 1") (simp_all add: schema_defs)
  have r: "register env prevState formData w =
           (Inr (Some \<lparr>errors = Some (fieldErrors (fst (FullRegisterSchema env
                           (Some e, Some n, Some p, Some c)))),
                        message = ''Missing Fields. Failed to Create User, please try again.''\<rparr>), w)"
    using err present by (simp add: register_def)
  have m: "map_of (fieldErrors (fst (FullRegisterSchema env (Some e, Some n, Some p, Some c))))
             ''confirmPassword'' = Some [''Password does not match'']"
    using np cp
    by (cases "emailRegex env e"; cases "length n < 1") (simp_all add: schema_defs fieldErrors_def)
  show ?thesis using r m by simp
qed

theorem register_password_mismatch_witness:
  "6 \<le> length ''abcdef'' \<and> 6 \<le> length ''abcdefg'' \<and> ''abcdef'' \<noteq> ''abcdefg''
   \<and> register example_env None
        [''email'' \<mapsto> ''bob@example.com'', ''name'' \<mapsto> ''Bob'', ''password'' \<mapsto> ''abcdef'',
         ''confirm-password'' \<mapsto> ''abcdefg''] example_world
      = (Inr (Some \<lparr>errors = Some [(''confirmPassword'', [''Password does not match''])],
                    message = ''Missing Fields. Failed to Create User, please try again.''\<rparr>),
         example_world)"
proof -
  have e: "fieldErrors (fst (FullRegisterSchema example_env
             (Some ''bob@example.com'', Some ''Bob'', Some ''abcdef'', Some ''abcdefg'')))
        = [(''confirmPassword'', [''Password does not match''])]"
    by (simp add: schema_defs fieldErrors_def example_env_def)
  show ?thesis
    using register_password_mismatch[of
        "[''email'' \<mapsto> ''bob@example.com'', ''name'' \<mapsto> ''Bob'', ''password'' \<mapsto> ''abcdef'',
          ''confirm-password'' \<mapsto> ''abcdefg'']"
        "''bob@example.com''" "''Bob''" "''abcdef''" "''abcdefg''" example_env None example_world]
    by (simp add: e)
qed

text \<open>
  C7: when the sign-in attempt of \<open>authenticate\<close> fails with an authentication error
  that establishes no session, the action returns \<open>Invalid credentials.\<close> for the type
  \<open>CredentialsSignin\<close> and \<open>Something went wrong.\<close> for every other type; the two
  messages differ, neither is the value returned on success, and the action itself touches
  no state: the session is as it was.
\<close>

theorem authenticate_failure_messages:
  assumes fails: "signIn env formData w = (Inl (AuthError t), w')"
    and no_session: "session w' = session w"
  shows "authenticate env prevState formData w =
           (Inr (Some (if t = ''CredentialsSignin'' then ''Invalid credentials.''
                       else ''Something went wrong.'')), w')
       \<and> ''Invalid credentials.'' \<noteq> ''Something went wrong.''
       \<and> fst (authenticate env prevState formData w) \<noteq> Inr None
       \<and> session (snd (authenticate env prevState formData w)) = session w"
  using fails no_session by (simp add: authenticate_def)

theorem authenticate_failure_messages_witness:
  "signIn example_env [''email'' \<mapsto> ''ann@example.com'', ''password'' \<mapsto> ''wrong''] example_world
     = (Inl (AuthError ''CredentialsSignin''), example_world)
   \<and> authenticate example_env None
        [''email'' \<mapsto> ''ann@example.com'', ''password'' \<mapsto> ''wrong''] example_world
      = (Inr (Some ''Invalid credentials.''), example_world)
   \<and> session example_world = None"
proof -
  have fails: "signIn example_env [''email'' \<mapsto> ''ann@example.com'', ''password'' \<mapsto> ''wrong'']
      example_world = (Inl (AuthError ''CredentialsSignin''), example_world)"
    by (simp add: example_env_def example_signIn_def example_world_def example_hash_def)
  show ?thesis
    using fails authenticate_failure_messages[of example_env
        "[''email'' \<mapsto> ''ann@example.com'', ''password'' \<mapsto> ''wrong'']" example_world
        "''CredentialsSignin''" example_world None]
    by (simp add: example_world_def)
qed

text \<open>
  C8: if the delete statement fails, \<open>deleteInvoice\<close> returns exactly
  \<open>{message: 'Database Error: Failed to Delete Invoice.'}\<close> and the world is unchanged
  (every row kept, no invalidation signalled); if it succeeds, the rows with that id are
  gone, the invoices path is signalled as stale and \<open>{message: 'Deleted Invoice.'}\<close> is
  returned. In both cases the action returns: it raises no navigation signal.
\<close>

theorem deleteInvoice_outcomes:
  "(db_fault env = Some err \<longrightarrow>
      deleteInvoice env i w =
        (Inr \<lparr>errors = None, message = ''Database Error: Failed to Delete Invoice.''\<rparr>, w))
   \<and> (db_fault env = None \<longrightarrow>
      deleteInvoice env i w =
        (Inr \<lparr>errors = None, message = ''Deleted Invoice.''\<rparr>,
         w\<lparr>invoices := filter (\<lambda>r. invoice_id r \<noteq> i) (invoices w),
           revalidated := revalidated w @ [''/dashboard/invoices'']\<rparr>))"
proof (intro conjI impI)
  assume "db_fault env = Some err"
  then have "sql_DELETE_invoices env i w = (Inl err, w)"
    by (simp add: sql_DELETE_invoices_def)
  then show "deleteInvoice env i w =
        (Inr \<lparr>errors = None, message = ''Database Error: Failed to Delete Invoice.''\<rparr>, w)"
    by (simp add: deleteInvoice_def)
next
  assume "db_fault env = None"
  then have "sql_DELETE_invoices env i w =
      (Inr (length (filter (\<lambda>r. invoice_id r = i) (invoices w))),
       w\<lparr>invoices := filter (\<lambda>r. invoice_id r \<noteq> i) (invoices w)\<rparr>)"
    by (simp add: sql_DELETE_invoices_def)
  then show "deleteInvoice env i w =
        (Inr \<lparr>errors = None, message = ''Deleted Invoice.''\<rparr>,
         w\<lparr>invoices := filter (\<lambda>r. invoice_id r \<noteq> i) (invoices w),
           revalidated := revalidated w @ [''/dashboard/invoices'']\<rparr>)"
    by (simp add: deleteInvoice_def revalidatePath_def)
qed

theorem deleteInvoice_outcomes_witness:
  "db_fault (example_env\<lparr>db_fault := Some OtherError\<rparr>) = Some OtherError
   \<and> deleteInvoice (example_env\<lparr>db_fault := Some OtherError\<rparr>) ''nonexistent-id'' example_world
      = (Inr \<lparr>errors = None, message = ''Database Error: Failed to Delete Invoice.''\<rparr>,
         example_world)
   \<and> db_fault example_env = None
   \<and> map invoice_id (invoices (snd (deleteInvoice example_env ''inv-1'' example_world))) = [''inv-2'']
   \<and> revalidated (snd (deleteInvoice example_env ''inv-1'' example_world)) = [''/dashboard/invoices'']
   \<and> fst (deleteInvoice example_env ''inv-1'' example_world)
      = Inr \<lparr>errors = None, message = ''Deleted Invoice.''\<rparr>"
  using deleteInvoice_outcomes[of "example_env\<lparr>db_fault := Some OtherError\<rparr>" OtherError
          "''nonexistent-id''" example_world]
        deleteInvoice_outcomes[of example_env OtherError "''inv-1''" example_world]
  by (simp add: example_env_def example_world_def)

text \<open>
  C9: after a successful \<open>updateInvoice\<close> (the one that ends in the navigation signal),
  the invoices table has the same rows in the same places, each with its id and its date
  as before, and every row whose id is not the given one is unchanged; the users table
  is unchanged too. So only \<open>customer_id\<close>, \<open>amount\<close> and \<open>status\<close> of the matching row
  may differ.
\<close>

theorem updateInvoice_frame:
  assumes "updateInvoice env i formData w = (Inl (RedirectError url), w')"
  shows "list_all2 (\<lambda>r r'. invoice_id r' = invoice_id r \<and> date r' = date r
                       \<and> (invoice_id r \<noteq> i \<longrightarrow> r' = r))
           (invoices w) (invoices w')
       \<and> users w' = users w"
proof (cases "parse (UpdateInvoice env (formData ''customerId'', formData ''amount'', formData ''status''))")
  case (Inl error)
  then have "updateInvoice env i formData w = (Inl error, w)" by (simp add: updateInvoice_def)
  moreover have "\<exists>issues. error = ZodError issues" using Inl by (auto simp: parse_eq_Inl)
  ultimately show ?thesis using assms by auto
next
  case (Inr data)
  obtain c a s where data: "data = (c, a, s)" by (cases data)
  show ?thesis
  proof (cases "db_fault env")
    case None
    then have "w' = revalidatePath ''/dashboard/invoices''
        (w\<lparr>invoices := map (\<lambda>r. if invoice_id r = i
                  then r\<lparr>customer_id := c, amount := js_mul a (Fin 100), status := s\<rparr>
                  else r) (invoices w)\<rparr>)"
      using assms Inr data by (auto simp: updateInvoice_def sql_UPDATE_invoices_def)
    then show ?thesis
      by (simp add: revalidatePath_def list_all2_map2 list_all2_same)
  next
    case (Some err)
    then show ?thesis
      using assms Inr data by (simp add: updateInvoice_def sql_UPDATE_invoices_def)
  qed
qed

theorem updateInvoice_frame_witness:
  "updateInvoice example_env ''inv-1''
     [''customerId'' \<mapsto> ''abc'', ''amount'' \<mapsto> ''50'', ''status'' \<mapsto> ''paid''] example_world
   = (Inl (RedirectError ''/dashboard/invoices''),
      example_world\<lparr>invoices :=
         [\<lparr>invoice_id = ''inv-1'', customer_id = ''abc'', amount = Fin 5000,
           status = ''paid'', date = ''2024-01-15''\<rparr>,
          \<lparr>invoice_id = ''inv-2'', customer_id = ''c2'', amount = Fin 2500,
           status = ''paid'', date = ''2024-02-20''\<rparr>],
         revalidated := [''/dashboard/invoices'']\<rparr>)
   \<and> list_all2 (\<lambda>r r'. invoice_id r' = invoice_id r \<and> date r' = date r
                       \<and> (invoice_id r \<noteq> ''inv-1'' \<longrightarrow> r' = r))
        (invoices example_world)
        [\<lparr>invoice_id = ''inv-1'', customer_id = ''abc'', amount = Fin 5000,
          status = ''paid'', date = ''2024-01-15''\<rparr>,
         \<lparr>invoice_id = ''inv-2'', customer_id = ''c2'', amount = Fin 2500,
          status = ''paid'', date = ''2024-02-20''\<rparr>]"
proof -
  have m: "js_mul (Fin 50) (Fin 100) = Fin 5000"
    using double_of_rat_of_int[of 5000] by simp
  have run: "updateInvoice example_env ''inv-1''
     [''customerId'' \<mapsto> ''abc'', ''amount'' \<mapsto> ''50'', ''status'' \<mapsto> ''paid''] example_world
   = (Inl (RedirectError ''/dashboard/invoices''),
      example_world\<lparr>invoices :=
         [\<lparr>invoice_id = ''inv-1'', customer_id = ''abc'', amount = Fin 5000,
           status = ''paid'', date = ''2024-01-15''\<rparr>,
          \<lparr>invoice_id = ''inv-2'', customer_id = ''c2'', amount = Fin 2500,
           status = ''paid'', date = ''2024-02-20''\<rparr>],
         revalidated := [''/dashboard/invoices'']\<rparr>)"
    by (simp add: updateInvoice_def UpdateInvoice_def ZodString_parse_def ZodNumber_gt0_parse_def
        ZodEnum_parse_def sql_UPDATE_invoices_def revalidatePath_def example_env_def
        example_world_def Number_decimal_50 m del: js_mul.simps)
  show ?thesis
    using run updateInvoice_frame[OF run] by simp
qed

text \<open>
  C10: on a path that starts with \<open>/dashboard\<close> the \<open>authorized\<close> callback answers
  \<open>true\<close> exactly when the session has a user, and \<open>false\<close> otherwise; on any other path
  a request with a user is answered with a redirect to \<open>/dashboard\<close> (of the same
  origin), and a request without one with \<open>true\<close>.
\<close>

theorem authorized_dashboard:
  "(prefix ''/dashboard'' (pathname nextUrl) \<longrightarrow>
      authorized auth nextUrl = Bool (case auth of None \<Rightarrow> False | Some s \<Rightarrow> user s \<noteq> None))
   \<and> (\<not> prefix ''/dashboard'' (pathname nextUrl) \<longrightarrow>
      authorized auth nextUrl =
        (case auth of
           None \<Rightarrow> Bool True
         | Some s \<Rightarrow> if user s \<noteq> None then Response_redirect (origin nextUrl @ ''/dashboard'')
                      else Bool True))"
proof (cases "prefix ''/dashboard'' (pathname nextUrl)")
  case True
  then show ?thesis
    by (cases auth) (simp_all add: authorized_def)
next
  case False
  then show ?thesis
    by (cases auth) (simp_all add: authorized_def)
qed

theorem authorized_dashboard_witness:
  "prefix ''/dashboard'' (pathname \<lparr>origin = ''https://acme.test'', pathname = ''/dashboard/invoices''\<rparr>)
   \<and> authorized None \<lparr>origin = ''https://acme.test'', pathname = ''/dashboard/invoices''\<rparr> = Bool False
   \<and> authorized (Some \<lparr>user = Some ''ann@example.com''\<rparr>)
        \<lparr>origin = ''https://acme.test'', pathname = ''/dashboard/invoices''\<rparr> = Bool True
   \<and> \<not> prefix ''/dashboard'' (pathname \<lparr>origin = ''https://acme.test'', pathname = ''/login''\<rparr>)
   \<and> authorized (Some \<lparr>user = Some ''ann@example.com''\<rparr>)
        \<lparr>origin = ''https://acme.test'', pathname = ''/login''\<rparr>
      = Response_redirect ''https://acme.test/dashboard''"
  using authorized_dashboard[of "\<lparr>origin = ''https://acme.test'', pathname = ''/dashboard/invoices''\<rparr>" None]
        authorized_dashboard[of "\<lparr>origin = ''https://acme.test'', pathname = ''/dashboard/invoices''\<rparr>"
          "Some \<lparr>user = Some ''ann@example.com''\<rparr>"]
        authorized_dashboard[of "\<lparr>origin = ''https://acme.test'', pathname = ''/login''\<rparr>"
          "Some \<lparr>user = Some ''ann@example.com''\<rparr>"]
  by simp

end
